theory Spec2Isabelle
  imports Main "HOL-Library.Product_Lexorder" "HOL-Library.Multiset" "HOL-Library.Sublist"
begin

section \<open>Values exchanged with the transport and the store\<close>

text \<open>
  The handlers of \<^verbatim>\<open>backend/flask_app.py\<close> read a parsed JSON body
  (\<^verbatim>\<open>request.json\<close>, a Python dict), a path parameter \<^verbatim>\<open>room_id\<close> (always
  a string) and, for polling, a query parameter. JSON values are modelled without
  floating-point numbers; Python's \<^verbatim>\<open>None\<close> is \<open>JNull\<close>.
\<close>

datatype json =
    JNull
  | JBool bool
  | JInt int
  | JString string
  | JArray "json list"
  | JObject "(string \<times> json) list"

type_synonym body = "string \<rightharpoonup> json"

text \<open>\<^verbatim>\<open>data.get(k)\<close>: the value under \<open>k\<close>, or \<^verbatim>\<open>None\<close> when the key is absent.\<close>

definition dict_get :: "body \<Rightarrow> string \<Rightarrow> json" where
  "dict_get data k = (case data k of None \<Rightarrow> JNull | Some v \<Rightarrow> v)"

text \<open>Python truthiness, as tested by \<^verbatim>\<open>if not device_id\<close>.\<close>

fun truthy :: "json \<Rightarrow> bool" where
  "truthy JNull = False"
| "truthy (JBool b) = b"
| "truthy (JInt i) = (i \<noteq> 0)"
| "truthy (JString s) = (s \<noteq> [])"
| "truthy (JArray vs) = (vs \<noteq> [])"
| "truthy (JObject kvs) = (kvs \<noteq> [])"

subsection \<open>Decimal rendering\<close>

definition digit_char :: "nat \<Rightarrow> char" where
  "digit_char d = ''0123456789'' ! d"

fun str_nat :: "nat \<Rightarrow> string" where
  "str_nat n = (if n < 10 then [digit_char n] else str_nat (n div 10) @ [digit_char (n mod 10)])"

declare str_nat.simps [simp del]

definition str_int :: "int \<Rightarrow> string" where
  "str_int i = (if i < 0 then CHR ''-'' # str_nat (nat (- i)) else str_nat (nat i))"

text \<open>\<^verbatim>\<open>f"{n:06d}"\<close>: decimal, left-padded with zeros to six characters.\<close>

definition fmt06 :: "nat \<Rightarrow> string" where
  "fmt06 n = replicate (6 - length (str_nat n)) CHR ''0'' @ str_nat n"

subsection \<open>Statement parameters\<close>

text \<open>
  What the \<^verbatim>\<open>sqlite3\<close> module stores in a TEXT column for a bound Python value:
  a string as it is, an integer (and a bool, which is an integer) as its decimal
  text when it fits 64 bits. A list or dict cannot be bound and an integer outside
  64 bits overflows: the statement raises (\<open>None\<close>). \<^verbatim>\<open>None\<close> would be stored as
  NULL, which is not a text; every handler rejects it before any statement runs.
\<close>

fun sqlite_text :: "json \<Rightarrow> string option" where
  "sqlite_text (JString s) = Some s"
| "sqlite_text (JInt i) =
     (if - (2 ^ 63) \<le> i \<and> i < 2 ^ 63 then Some (str_int i) else None)"
| "sqlite_text (JBool b) = Some (if b then ''1'' else ''0'')"
| "sqlite_text JNull = None"
| "sqlite_text (JArray vs) = None"
| "sqlite_text (JObject kvs) = None"

text \<open>
  \<^verbatim>\<open>str(v)\<close> inside the token f-strings, for the values that reach them (the
  statements before them have already bound the value, so it is a scalar).
\<close>

fun py_str :: "json \<Rightarrow> string" where
  "py_str (JString s) = s"
| "py_str (JInt i) = str_int i"
| "py_str (JBool b) = (if b then ''True'' else ''False'')"
| "py_str JNull = ''None''"
| "py_str (JArray vs) = []"
| "py_str (JObject kvs) = []"

subsection \<open>The json module\<close>

text \<open>
  \<^verbatim>\<open>json.dumps\<close> and \<^verbatim>\<open>json.loads\<close> belong to Python's standard library, not to
  the repository: the handlers take them as a parameter. \<open>json_loads\<close> returns
  \<open>None\<close> where the library raises.
\<close>

record json_module =
  json_dumps :: "json \<Rightarrow> string"
  json_loads :: "string \<Rightarrow> json option"

subsection \<open>An instance of the json module\<close>

text \<open>
  The encoder and decoder below follow CPython's \<^verbatim>\<open>json\<close> with its default
  settings on the values of type \<open>json\<close>: \<^verbatim>\<open>dumps\<close> separates with
  \<^verbatim>\<open>", "\<close> and \<^verbatim>\<open>": "\<close> and escapes every character outside the printable
  ASCII range (\<^verbatim>\<open>ensure_ascii\<close>); \<^verbatim>\<open>loads\<close> skips white space around tokens,
  rejects control characters inside strings, lets a repeated key keep its first
  position and its last value, and rejects trailing data. A \<open>string\<close> is a list
  of 8-bit characters, so a four-digit escape above 00ff has no value here, and so has
  a number with a fraction or an exponent: the decoder returns \<open>None\<close> for them.
  The recursion of the decoder is bounded by a counter that \<open>decode_json\<close> starts
  above the length of the text.
\<close>

definition hex_char :: "nat \<Rightarrow> char" where
  "hex_char d = ''0123456789abcdef'' ! d"

definition dquote :: char where "dquote = CHR 0x22"
definition bslash :: char where "bslash = CHR 0x5C"

definition escape_char :: "char \<Rightarrow> string" where
  "escape_char c =
     (if c = dquote then [bslash, dquote]
      else if c = bslash then [bslash, bslash]
      else if c = CHR 0x0A then [bslash, CHR ''n'']
      else if c = CHR 0x0D then [bslash, CHR ''r'']
      else if c = CHR 0x09 then [bslash, CHR ''t'']
      else if c = CHR 0x08 then [bslash, CHR ''b'']
      else if c = CHR 0x0C then [bslash, CHR ''f'']
      else if (of_char c :: nat) < 32 \<or> 126 < (of_char c :: nat)
      then [bslash, CHR ''u'', CHR ''0'', CHR ''0'',
            hex_char (of_char c div 16), hex_char (of_char c mod 16)]
      else [c])"

definition encode_string :: "string \<Rightarrow> string" where
  "encode_string s = dquote # concat (map escape_char s) @ [dquote]"

fun encode_json :: "json \<Rightarrow> string"
  and encode_elems :: "json list \<Rightarrow> string"
  and encode_members :: "(string \<times> json) list \<Rightarrow> string"
where
  "encode_json JNull = ''null''"
| "encode_json (JBool b) = (if b then ''true'' else ''false'')"
| "encode_json (JInt i) = str_int i"
| "encode_json (JString s) = encode_string s"
| "encode_json (JArray vs) = ''['' @ encode_elems vs @ '']''"
| "encode_json (JObject kvs) = ''{'' @ encode_members kvs @ ''}''"
| "encode_elems [] = []"
| "encode_elems [v] = encode_json v"
| "encode_elems (v # w # vs) = encode_json v @ '', '' @ encode_elems (w # vs)"
| "encode_members [] = []"
| "encode_members [(k, v)] = encode_string k @ '': '' @ encode_json v"
| "encode_members ((k, v) # m # kvs) =
     encode_string k @ '': '' @ encode_json v @ '', '' @ encode_members (m # kvs)"

definition is_ws :: "char \<Rightarrow> bool" where
  "is_ws c = (c = CHR '' '' \<or> c = CHR 0x09 \<or> c = CHR 0x0A \<or> c = CHR 0x0D)"

definition skip_ws :: "string \<Rightarrow> string" where
  "skip_ws s = dropWhile is_ws s"

definition is_digit :: "char \<Rightarrow> bool" where
  "is_digit c = (48 \<le> (of_char c :: nat) \<and> (of_char c :: nat) \<le> 57)"

definition digit_val :: "char \<Rightarrow> nat" where
  "digit_val c = of_char c - 48"

definition nat_of_digits :: "string \<Rightarrow> nat" where
  "nat_of_digits ds = foldl (\<lambda>n c. 10 * n + digit_val c) 0 ds"

definition hex_val :: "char \<Rightarrow> nat option" where
  "hex_val c =
     (let n = (of_char c :: nat) in
      if 48 \<le> n \<and> n \<le> 57 then Some (n - 48)
      else if 97 \<le> n \<and> n \<le> 102 then Some (n - 87)
      else if 65 \<le> n \<and> n \<le> 70 then Some (n - 55)
      else None)"

fun hex4 :: "string \<Rightarrow> nat option" where
  "hex4 [a, b, c, d] =
     (case (hex_val a, hex_val b, hex_val c, hex_val d) of
        (Some x, Some y, Some z, Some w) \<Rightarrow> Some (((x * 16 + y) * 16 + z) * 16 + w)
      | _ \<Rightarrow> None)"
| "hex4 _ = None"

definition unescape :: "char \<Rightarrow> char option" where
  "unescape e =
     (if e = dquote then Some dquote
      else if e = bslash then Some bslash
      else if e = CHR ''/'' then Some CHR ''/''
      else if e = CHR ''b'' then Some (CHR 0x08)
      else if e = CHR ''f'' then Some (CHR 0x0C)
      else if e = CHR ''n'' then Some (CHR 0x0A)
      else if e = CHR ''r'' then Some (CHR 0x0D)
      else if e = CHR ''t'' then Some (CHR 0x09)
      else None)"

fun scan_string :: "string \<Rightarrow> (string \<times> string) option" where
  "scan_string [] = None"
| "scan_string (c # cs) =
     (if c = dquote then Some ([], cs)
      else if c = bslash then
        (case cs of
           [] \<Rightarrow> None
         | e # cs' \<Rightarrow>
             if e = CHR ''u'' then
               (case hex4 (take 4 cs') of
                  None \<Rightarrow> None
                | Some n \<Rightarrow>
                    if n < 256
                    then map_option (\<lambda>(str, r). (char_of n # str, r)) (scan_string (drop 4 cs'))
                    else None)
             else
               (case unescape e of
                  None \<Rightarrow> None
                | Some ch \<Rightarrow> map_option (\<lambda>(str, r). (ch # str, r)) (scan_string cs')))
      else if (of_char c :: nat) < 32 then None
      else map_option (\<lambda>(str, r). (c # str, r)) (scan_string cs))"

definition is_fraction :: "string \<Rightarrow> bool" where
  "is_fraction r = (case r of c # d # _ \<Rightarrow> c = CHR ''.'' \<and> is_digit d | _ \<Rightarrow> False)"

definition is_exponent :: "string \<Rightarrow> bool" where
  "is_exponent r =
     (case r of
        c # d # r' \<Rightarrow>
          (c = CHR ''e'' \<or> c = CHR ''E'') \<and>
          (is_digit d \<or>
           ((d = CHR ''+'' \<or> d = CHR ''-'') \<and> (case r' of x # _ \<Rightarrow> is_digit x | [] \<Rightarrow> False)))
      | _ \<Rightarrow> False)"

definition scan_number :: "string \<Rightarrow> (json \<times> string) option" where
  "scan_number s =
     (let neg = (case s of c # _ \<Rightarrow> c = CHR ''-'' | [] \<Rightarrow> False);
          s1 = (if neg then tl s else s);
          ds = (case s1 of
                  c # _ \<Rightarrow> if c = CHR ''0'' then [c] else takeWhile is_digit s1
                | [] \<Rightarrow> []);
          r = drop (length ds) s1
      in if ds = [] then None
         else if is_fraction r \<or> is_exponent r then None
         else Some (JInt (if neg then - int (nat_of_digits ds) else int (nat_of_digits ds)), r))"

fun dict_set :: "string \<Rightarrow> json \<Rightarrow> (string \<times> json) list \<Rightarrow> (string \<times> json) list" where
  "dict_set k v [] = [(k, v)]"
| "dict_set k v (p # ps) = (if fst p = k then (k, v) # ps else p # dict_set k v ps)"

definition dict_of :: "(string \<times> json) list \<Rightarrow> (string \<times> json) list" where
  "dict_of pairs = foldl (\<lambda>d (k, v). dict_set k v d) [] pairs"

definition strip_prefix :: "string \<Rightarrow> string \<Rightarrow> string option" where
  "strip_prefix p s = (if take (length p) s = p then Some (drop (length p) s) else None)"

fun decode_value :: "nat \<Rightarrow> string \<Rightarrow> (json \<times> string) option"
  and decode_elems :: "nat \<Rightarrow> string \<Rightarrow> (json list \<times> string) option"
  and decode_members :: "nat \<Rightarrow> string \<Rightarrow> ((string \<times> json) list \<times> string) option"
where
  "decode_value 0 s = None"
| "decode_value (Suc n) [] = None"
| "decode_value (Suc n) (c # cs) =
     (if c = dquote then map_option (\<lambda>(str, r). (JString str, r)) (scan_string cs)
      else if c = CHR ''{'' then
        (case skip_ws cs of
           [] \<Rightarrow> None
         | x # xs \<Rightarrow>
             if x = CHR ''}'' then Some (JObject [], xs)
             else map_option (\<lambda>(kvs, r). (JObject (dict_of kvs), r)) (decode_members n (x # xs)))
      else if c = CHR ''['' then
        (case skip_ws cs of
           [] \<Rightarrow> None
         | x # xs \<Rightarrow>
             if x = CHR '']'' then Some (JArray [], xs)
             else map_option (\<lambda>(vs, r). (JArray vs, r)) (decode_elems n (x # xs)))
      else if c = CHR ''n'' then map_option (\<lambda>r. (JNull, r)) (strip_prefix ''ull'' cs)
      else if c = CHR ''t'' then map_option (\<lambda>r. (JBool True, r)) (strip_prefix ''rue'' cs)
      else if c = CHR ''f'' then map_option (\<lambda>r. (JBool False, r)) (strip_prefix ''alse'' cs)
      else scan_number (c # cs))"
| "decode_elems 0 s = None"
| "decode_elems (Suc n) s =
     (case decode_value n s of
        None \<Rightarrow> None
      | Some (v, r) \<Rightarrow>
          (case skip_ws r of
             [] \<Rightarrow> None
           | x # xs \<Rightarrow>
               if x = CHR '']'' then Some ([v], xs)
               else if x = CHR '','' then
                 map_option (\<lambda>(vs, r'). (v # vs, r')) (decode_elems n (skip_ws xs))
               else None))"
| "decode_members 0 s = None"
| "decode_members (Suc n) s =
     (case s of
        [] \<Rightarrow> None
      | q # s' \<Rightarrow>
          if q \<noteq> dquote then None
          else
            (case scan_string s' of
               None \<Rightarrow> None
             | Some (k, r) \<Rightarrow>
                 (case skip_ws r of
                    [] \<Rightarrow> None
                  | y # ys \<Rightarrow>
                      if y \<noteq> CHR '':'' then None
                      else
                        (case decode_value n (skip_ws ys) of
                           None \<Rightarrow> None
                         | Some (v, r') \<Rightarrow>
                             (case skip_ws r' of
                                [] \<Rightarrow> None
                              | x # xs \<Rightarrow>
                                  if x = CHR ''}'' then Some ([(k, v)], xs)
                                  else if x = CHR '','' then
                                    map_option (\<lambda>(kvs, r''). ((k, v) # kvs, r''))
                                      (decode_members n (skip_ws xs))
                                  else None)))))"

definition decode_json :: "string \<Rightarrow> json option" where
  "decode_json s =
     (case decode_value (Suc (length s)) (skip_ws s) of
        None \<Rightarrow> None
      | Some (v, r) \<Rightarrow> if skip_ws r = [] then Some v else None)"

definition py_json :: json_module where
  "py_json = \<lparr>json_dumps = encode_json, json_loads = decode_json\<rparr>"




section \<open>The tables\<close>

text \<open>
  \<^verbatim>\<open>rooms.status\<close> holds \<^verbatim>\<open>'open'\<close> or \<^verbatim>\<open>'closed'\<close>, \<^verbatim>\<open>participants.role\<close>
  holds \<^verbatim>\<open>'host'\<close> or \<^verbatim>\<open>'peer'\<close>. Timestamps (\<^verbatim>\<open>CURRENT_TIMESTAMP\<close>,
  \<^verbatim>\<open>datetime('now')\<close>) have a resolution of one second and are modelled as a number
  of seconds; the clock reading is an argument of every handler that uses it.
\<close>

datatype status = Open | Closed

datatype role = Host | Peer

record room =
  room_id :: string
  host_id :: string
  room_created_at :: int
  room_status :: status

record participant =
  device_id :: string
  part_room_id :: string
  part_role :: role
  last_seen :: int

record signal =
  sig_id :: nat
  sig_room_id :: string
  from_device :: string
  to_device :: string
  sig_type :: string
  sig_payload :: string
  sig_created_at :: int

text \<open>
  Each table is the list of its rows in rowid order, which is the order of a table
  scan. \<open>signals_seq\<close> is the AUTOINCREMENT counter of \<^verbatim>\<open>signals\<close>: the largest id
  ever given.
\<close>

record db =
  rooms :: "room list"
  participants :: "participant list"
  signals :: "signal list"
  signals_seq :: nat

definition init_db :: db where
  "init_db = \<lparr>rooms = [], participants = [], signals = [], signals_seq = 0\<rparr>"

section \<open>Responses\<close>

text \<open>
  The exceptions that a statement or \<^verbatim>\<open>json.loads\<close> raises: a primary key that is
  taken (with the columns that SQLite names), a parameter that cannot be bound, a
  text that is not JSON.

  \<open>BadRequest\<close> is a 400, \<open>NotFound\<close> a 404, \<open>ServerError\<close> the 500 that
  \<^verbatim>\<open>create_room\<close> builds from the text of the exception it caught, \<open>Unhandled\<close> the
  500 of an exception that no handler catches. A request that fails commits nothing,
  so an error carries no store.
\<close>

datatype failure = UniqueViolation string | BindingFailure | JSONDecodeFailure

datatype error =
    BadRequest string
  | NotFound string
  | ServerError failure
  | Unhandled failure

record created =
  created_room_id :: string
  created_token :: string

record joined =
  joined_token :: string
  joined_host_id :: string

record message =
  msg_from :: string
  msg_type :: string
  msg_payload :: json

record presence =
  pres_device_id :: string
  pres_last_seen :: int
  pres_role :: role

section \<open>Housekeeping\<close>

text \<open>
  \<^verbatim>\<open>clean_stale_data\<close>: signals older than 10 minutes and participants silent for
  more than one hour are deleted.
\<close>

definition clean_stale_data :: "db \<Rightarrow> int \<Rightarrow> db" where
  "clean_stale_data s now =
     s\<lparr>signals := filter (\<lambda>r. \<not> sig_created_at r < now - 600) (signals s),
       participants := filter (\<lambda>p. \<not> last_seen p < now - 3600) (participants s)\<rparr>"

section \<open>The routes\<close>

subsection \<open>POST /rooms\<close>

text \<open>\<open>rnd\<close> is the draw of \<^verbatim>\<open>random.randint(0, 999999)\<close>.\<close>

definition create_room :: "db \<Rightarrow> int \<Rightarrow> nat \<Rightarrow> body \<Rightarrow> error + created \<times> db" where
  "create_room s now rnd data =
     (let host = dict_get data ''device_id'' in
      if \<not> truthy host then Inl (BadRequest ''device_id required'')
      else
        let rid = fmt06 rnd in
        case sqlite_text host of
          None \<Rightarrow> Inl (ServerError BindingFailure)
        | Some h \<Rightarrow>
            if \<exists>r \<in> set (rooms s). room_id r = rid
            then Inl (ServerError (UniqueViolation ''rooms.room_id''))
            else if \<exists>p \<in> set (participants s). device_id p = h \<and> part_room_id p = rid
            then Inl (ServerError
                   (UniqueViolation ''participants.device_id, participants.room_id''))
            else Inr (\<lparr>created_room_id = rid,
                        created_token = ''host-'' @ py_str host @ ''-'' @ rid\<rparr>,
                      s\<lparr>rooms := rooms s @
                           [\<lparr>room_id = rid, host_id = h, room_created_at = now,
                             room_status = Open\<rparr>],
                        participants := participants s @
                           [\<lparr>device_id = h, part_room_id = rid, part_role = Host,
                             last_seen = now\<rparr>]\<rparr>))"

subsection \<open>POST /rooms/<room_id>/join\<close>

text \<open>
  \<^verbatim>\<open>INSERT OR REPLACE\<close> deletes the row that holds the same primary key
  \<open>(device_id, room_id)\<close>, if any, and inserts the new row.
\<close>

definition join_room :: "db \<Rightarrow> int \<Rightarrow> string \<Rightarrow> body \<Rightarrow> error + joined \<times> db" where
  "join_room s now rid data =
     (let device = dict_get data ''device_id'' in
      if \<not> truthy device then Inl (BadRequest ''device_id required'')
      else
        case find (\<lambda>r. room_id r = rid \<and> room_status r = Open) (rooms s) of
          None \<Rightarrow> Inl (NotFound ''Room not found or closed'')
        | Some room \<Rightarrow>
            (case sqlite_text device of
               None \<Rightarrow> Inl (Unhandled BindingFailure)
             | Some d \<Rightarrow>
                 Inr (\<lparr>joined_token = ''peer-'' @ py_str device @ ''-'' @ rid,
                       joined_host_id = host_id room\<rparr>,
                      s\<lparr>participants :=
                          filter (\<lambda>p. \<not> (device_id p = d \<and> part_room_id p = rid))
                            (participants s) @
                          [\<lparr>device_id = d, part_room_id = rid, part_role = Peer,
                            last_seen = now\<rparr>]\<rparr>)))"

subsection \<open>POST /rooms/<room_id>/signal\<close>

text \<open>
  \<open>uuid\<close> is the integer of the \<^verbatim>\<open>uuid.uuid4()\<close> drawn after the commit: the
  housekeeping runs when it is a multiple of 10.
\<close>

definition send_signal ::
  "json_module \<Rightarrow> db \<Rightarrow> int \<Rightarrow> nat \<Rightarrow> string \<Rightarrow> body \<Rightarrow> error + unit \<times> db" where
  "send_signal J s now uuid rid data =
     (let from_dev = dict_get data ''from'';
          to_dev = dict_get data ''to'';
          s_type = dict_get data ''type'';
          payload = dict_get data ''payload''
      in
      if from_dev = JNull \<or> to_dev = JNull \<or> s_type = JNull \<or> payload = JNull
      then Inl (BadRequest ''Missing fields (from, to, type, payload are required)'')
      else
        let payload_json = json_dumps J payload in
        case (sqlite_text from_dev, sqlite_text to_dev, sqlite_text s_type) of
          (Some f, Some t, Some ty) \<Rightarrow>
            let s1 = s\<lparr>signals := signals s @
                         [\<lparr>sig_id = Suc (signals_seq s), sig_room_id = rid,
                           from_device = f, to_device = t, sig_type = ty,
                           sig_payload = payload_json, sig_created_at = now\<rparr>],
                       signals_seq := Suc (signals_seq s)\<rparr>
            in Inr ((), if uuid mod 10 = 0 then clean_stale_data s1 now else s1)
        | _ \<Rightarrow> Inl (Unhandled BindingFailure))"

subsection \<open>GET /rooms/<room_id>/signal\<close>

text \<open>
  The rows selected for a recipient: \<^verbatim>\<open>WHERE room_id = ? AND to_device = ?
  ORDER BY created_at ASC\<close>. The statement names no second key. SQLite scans the
  table in rowid order and its sorter keeps the order of the scan among rows with
  the same \<^verbatim>\<open>created_at\<close>; the selection is modelled so, as a stable sort of the
  scan.
\<close>

definition select_signals :: "db \<Rightarrow> string \<Rightarrow> string \<Rightarrow> signal list" where
  "select_signals s rid d =
     sort_key sig_created_at
       (filter (\<lambda>r. sig_room_id r = rid \<and> to_device r = d) (signals s))"

text \<open>
  The loop over the rows: one message and one id per row. \<^verbatim>\<open>json.loads\<close> raising
  ends the request.
\<close>

fun read_rows ::
  "json_module \<Rightarrow> signal list \<Rightarrow> message list \<Rightarrow> nat list \<Rightarrow> (message list \<times> nat list) option"
where
  "read_rows J [] messages ids_to_delete = Some (messages, ids_to_delete)"
| "read_rows J (row # rows) messages ids_to_delete =
     (case json_loads J (sig_payload row) of
        None \<Rightarrow> None
      | Some p \<Rightarrow>
          read_rows J rows
            (messages @ [\<lparr>msg_from = from_device row, msg_type = sig_type row,
                          msg_payload = p\<rparr>])
            (ids_to_delete @ [sig_id row]))"

definition get_signals ::
  "json_module \<Rightarrow> db \<Rightarrow> string \<Rightarrow> string option \<Rightarrow> error + message list \<times> db" where
  "get_signals J s rid device =
     (case device of
        None \<Rightarrow> Inl (BadRequest ''device_id query param required'')
      | Some d \<Rightarrow>
          if d = [] then Inl (BadRequest ''device_id query param required'')
          else
            case read_rows J (select_signals s rid d) [] [] of
              None \<Rightarrow> Inl (Unhandled JSONDecodeFailure)
            | Some (messages, ids_to_delete) \<Rightarrow>
                Inr (messages,
                     if ids_to_delete \<noteq> []
                     then s\<lparr>signals :=
                            filter (\<lambda>r. sig_id r \<notin> set ids_to_delete) (signals s)\<rparr>
                     else s))"

subsection \<open>POST /rooms/<room_id>/heartbeat\<close>

definition heartbeat :: "db \<Rightarrow> int \<Rightarrow> string \<Rightarrow> body \<Rightarrow> error + unit \<times> db" where
  "heartbeat s now rid data =
     (let device = dict_get data ''device_id'' in
      if \<not> truthy device then Inl (BadRequest ''device_id required'')
      else
        case sqlite_text device of
          None \<Rightarrow> Inl (Unhandled BindingFailure)
        | Some d \<Rightarrow>
            Inr ((), s\<lparr>participants :=
                       map (\<lambda>p. if part_room_id p = rid \<and> device_id p = d
                                then p\<lparr>last_seen := now\<rparr> else p)
                         (participants s)\<rparr>))"

subsection \<open>GET /rooms/<room_id>/participants\<close>

definition list_participants :: "db \<Rightarrow> int \<Rightarrow> string \<Rightarrow> presence list" where
  "list_participants s now rid =
     map (\<lambda>p. \<lparr>pres_device_id = device_id p, pres_last_seen = last_seen p,
               pres_role = part_role p\<rparr>)
       (filter (\<lambda>p. part_room_id p = rid \<and> last_seen p > now - 30) (participants s))"

subsection \<open>POST /rooms/<room_id>/close\<close>

definition close_room :: "db \<Rightarrow> string \<Rightarrow> error + unit \<times> db" where
  "close_room s rid =
     Inr ((), s\<lparr>rooms := map (\<lambda>r. if room_id r = rid then r\<lparr>room_status := Closed\<rparr> else r)
                           (rooms s),
                participants := filter (\<lambda>p. part_room_id p \<noteq> rid) (participants s),
                signals := filter (\<lambda>r. sig_room_id r \<noteq> rid) (signals s)\<rparr>)"

section \<open>Properties of the store and of runs\<close>

text \<open>The message that \<^verbatim>\<open>get_signals\<close> builds from one row.\<close>

definition row_message :: "json_module \<Rightarrow> signal \<Rightarrow> message option" where
  "row_message J row =
     map_option
       (\<lambda>p. \<lparr>msg_from = from_device row, msg_type = sig_type row, msg_payload = p\<rparr>)
       (json_loads J (sig_payload row))"

text \<open>
  The constraints of the schema: \<^verbatim>\<open>room_id\<close> is the primary key of \<^verbatim>\<open>rooms\<close>,
  \<^verbatim>\<open>(device_id, room_id)\<close> of \<^verbatim>\<open>participants\<close>, and the ids of \<^verbatim>\<open>signals\<close>
  grow with the rowid and never exceed the AUTOINCREMENT counter.
\<close>

definition db_ok :: "db \<Rightarrow> bool" where
  "db_ok s \<longleftrightarrow>
     distinct (map room_id (rooms s)) \<and>
     distinct (map (\<lambda>p. (device_id p, part_room_id p)) (participants s)) \<and>
     sorted_wrt (<) (map sig_id (signals s)) \<and>
     (\<forall>r \<in> set (signals s). sig_id r \<le> signals_seq s)"



definition text_of :: "json \<Rightarrow> string" where
  "text_of v = (case sqlite_text v of None \<Rightarrow> [] | Some t \<Rightarrow> t)"





text \<open>
  The row that an accepted Send inserts and the store after the insertion; the
  store after a Fetch that returned the selected rows.
\<close>

definition stored_signal :: "json_module \<Rightarrow> db \<Rightarrow> int \<Rightarrow> string \<Rightarrow> body \<Rightarrow> signal" where
  "stored_signal J s now rid data =
     \<lparr>sig_id = Suc (signals_seq s), sig_room_id = rid,
      from_device = text_of (dict_get data ''from''),
      to_device = text_of (dict_get data ''to''),
      sig_type = text_of (dict_get data ''type''),
      sig_payload = json_dumps J (dict_get data ''payload''),
      sig_created_at = now\<rparr>"

definition insert_signal :: "json_module \<Rightarrow> db \<Rightarrow> int \<Rightarrow> string \<Rightarrow> body \<Rightarrow> db" where
  "insert_signal J s now rid data =
     s\<lparr>signals := signals s @ [stored_signal J s now rid data],
       signals_seq := Suc (signals_seq s)\<rparr>"

definition after_fetch :: "db \<Rightarrow> string \<Rightarrow> string \<Rightarrow> db" where
  "after_fetch s rid d =
     (if select_signals s rid d = [] then s
      else s\<lparr>signals :=
             filter (\<lambda>r. sig_id r \<notin> sig_id ` set (select_signals s rid d)) (signals s)\<rparr>)"

text \<open>The body of a Send whose three text fields are strings.\<close>

definition signal_body :: "string \<Rightarrow> string \<Rightarrow> string \<Rightarrow> json \<Rightarrow> body" where
  "signal_body f t ty p =
     [''from'' \<mapsto> JString f, ''to'' \<mapsto> JString t, ''type'' \<mapsto> JString ty, ''payload'' \<mapsto> p]"


text \<open>
  A store with one offer pending for the peer \<open>P\<close> of room 042517, and two further
  Sends to \<open>P\<close> within the same second, neither of which triggers the housekeeping.
\<close>

definition scenario_store :: db where
  "scenario_store =
     insert_signal py_json init_db 0 ''042517''
       (signal_body ''H'' ''P'' ''offer'' (JObject [(''sdp'', JString ''v=0'')]))"


text \<open>The store that \<^verbatim>\<open>close_room\<close> leaves.\<close>

definition closed_store :: "db \<Rightarrow> string \<Rightarrow> db" where
  "closed_store s rid =
     s\<lparr>rooms := map (\<lambda>r. if room_id r = rid then r\<lparr>room_status := Closed\<rparr> else r) (rooms s),
       participants := filter (\<lambda>p. part_room_id p \<noteq> rid) (participants s),
       signals := filter (\<lambda>r. sig_room_id r \<noteq> rid) (signals s)\<rparr>"

text \<open>Room 042517 with its host, one peer and one offer that the peer has not fetched.\<close>

definition scenario_room_store :: db where
  "scenario_room_store =
     \<lparr>rooms = [\<lparr>room_id = ''042517'', host_id = ''H'', room_created_at = 0,
                 room_status = Open\<rparr>],
      participants = [\<lparr>device_id = ''H'', part_room_id = ''042517'', part_role = Host,
                        last_seen = 0\<rparr>,
                      \<lparr>device_id = ''P'', part_room_id = ''042517'', part_role = Peer,
                        last_seen = 2\<rparr>],
      signals = [\<lparr>sig_id = 1, sig_room_id = ''042517'', from_device = ''H'',
                   to_device = ''P'', sig_type = ''offer'',
                   sig_payload = encode_json (JString ''a''), sig_created_at = 3\<rparr>],
      signals_seq = 1\<rparr>"

section \<open>What a Fetch returns and deletes\<close>

lemma those_eq_Some_iff: "those xs = Some ys \<longleftrightarrow> xs = map Some ys"
proof (induction xs arbitrary: ys)
  case Nil
  then show ?case by auto
next
  case (Cons x xs)
  then show ?case by (cases x; cases ys) (auto split: option.splits)
qed

lemma those_map_Some: "those (map Some ys) = Some ys"
  by (simp add: those_eq_Some_iff)

lemma read_rows_those:
  "read_rows J rows ms ids =
     map_option (\<lambda>new. (ms @ new, ids @ map sig_id rows)) (those (map (row_message J) rows))"
proof (induction rows arbitrary: ms ids)
  case Nil
  then show ?case by simp
next
  case (Cons row rows)
  show ?case
  proof (cases "json_loads J (sig_payload row)")
    case None
    then show ?thesis by (simp add: row_message_def)
  next
    case (Some p)
    then show ?thesis
      by (simp add: Cons.IH row_message_def option.map_comp comp_def split: option.splits)
  qed
qed

lemma get_signals_eq:
  "d \<noteq> [] \<Longrightarrow>
   get_signals J s rid (Some d) =
     (case those (map (row_message J) (select_signals s rid d)) of
        None \<Rightarrow> Inl (Unhandled JSONDecodeFailure)
      | Some msgs \<Rightarrow> Inr (msgs, after_fetch s rid d))"
  by (simp add: get_signals_def read_rows_those after_fetch_def split: option.splits)

lemma get_signals_Inr_iff:
  "get_signals J s rid dev = Inr (msgs, s') \<longleftrightarrow>
     (\<exists>d. dev = Some d \<and> d \<noteq> [] \<and>
          map (row_message J) (select_signals s rid d) = map Some msgs \<and>
          s' = after_fetch s rid d)"
proof (cases dev)
  case None
  then show ?thesis by (simp add: get_signals_def)
next
  case (Some d)
  show ?thesis
  proof (cases "d = []")
    case True
    then show ?thesis using Some by (simp add: get_signals_def)
  next
    case False
    then show ?thesis using Some
      by (auto simp: get_signals_eq those_eq_Some_iff those_map_Some split: option.splits)
  qed
qed





section \<open>The schema constraints are kept\<close>

lemma db_ok_init: "db_ok init_db"
  by (simp add: db_ok_def init_db_def)


lemma sqlite_text_not_null: "sqlite_text v \<noteq> None \<Longrightarrow> v \<noteq> JNull"
  by (cases v) auto

lemma send_signal_accepted:
  assumes "sqlite_text (dict_get data ''from'') \<noteq> None"
    and "sqlite_text (dict_get data ''to'') \<noteq> None"
    and "sqlite_text (dict_get data ''type'') \<noteq> None"
    and "dict_get data ''payload'' \<noteq> JNull"
  shows "send_signal J s now uuid rid data =
           Inr ((), if uuid mod 10 = 0 then clean_stale_data (insert_signal J s now rid data) now
                    else insert_signal J s now rid data)"
  using assms sqlite_text_not_null [of "dict_get data ''from''"]
    sqlite_text_not_null [of "dict_get data ''to''"]
    sqlite_text_not_null [of "dict_get data ''type''"]
  by (auto simp: send_signal_def Let_def insert_signal_def stored_signal_def text_of_def)




lemma db_ok_after_fetch: "db_ok s \<Longrightarrow> db_ok (after_fetch s rid d)"
  by (auto simp: db_ok_def after_fetch_def sorted_wrt_map intro: sorted_wrt_filter)

lemma db_ok_get_signals:
  "get_signals J s rid dev = Inr (msgs, s') \<Longrightarrow> db_ok s \<Longrightarrow> db_ok s'"
  by (auto simp: get_signals_Inr_iff db_ok_after_fetch)

lemma room_ids_close:
  "map room_id (map (\<lambda>r. if room_id r = rid then r\<lparr>room_status := Closed\<rparr> else r) rs) =
   map room_id rs"
  by (induction rs) auto

lemma db_ok_close: "close_room s rid = Inr (u, s') \<Longrightarrow> db_ok s \<Longrightarrow> db_ok s'"
  unfolding close_room_def db_ok_def
  by (auto simp: room_ids_close sorted_wrt_map distinct_map_filter simp del: map_map
      intro: sorted_wrt_filter)

lemma db_ok_heartbeat: "heartbeat s now rid data = Inr (u, s') \<Longrightarrow> db_ok s \<Longrightarrow> db_ok s'"
proof -
  have k: "map (\<lambda>p. (device_id p, part_room_id p))
             (map (\<lambda>p. if part_room_id p = rid \<and> device_id p = d then p\<lparr>last_seen := now\<rparr> else p) ps) =
           map (\<lambda>p. (device_id p, part_room_id p)) ps" for d ps
    by (induction ps) auto
  show "heartbeat s now rid data = Inr (u, s') \<Longrightarrow> db_ok s \<Longrightarrow> db_ok s'"
    unfolding heartbeat_def db_ok_def Let_def
    by (auto simp: k simp del: map_map split: if_splits option.splits)
qed

lemma db_ok_join: "join_room s now rid data = Inr (u, s') \<Longrightarrow> db_ok s \<Longrightarrow> db_ok s'"
  unfolding join_room_def db_ok_def Let_def
  by (auto simp: distinct_map_filter split: if_splits option.splits)

lemma db_ok_create: "create_room s now rnd data = Inr (u, s') \<Longrightarrow> db_ok s \<Longrightarrow> db_ok s'"
  unfolding create_room_def db_ok_def Let_def
  by (auto split: if_splits option.splits) blast+

section \<open>The order of the selected rows\<close>





section \<open>The mailbox after a Send\<close>















section \<open>Runs of Sends and Fetches\<close>







section \<open>The json module gives back what it encoded\<close>

subsection \<open>Numbers\<close>















subsection \<open>Strings\<close>

lemma hex_cases:
  "d < 16 \<Longrightarrow> d = 0 \<or> d = 1 \<or> d = 2 \<or> d = 3 \<or> d = 4 \<or> d = 5 \<or> d = 6 \<or> d = 7 \<or> d = 8 \<or>
     d = 9 \<or> d = 10 \<or> d = 11 \<or> d = 12 \<or> d = 13 \<or> d = 14 \<or> d = (15::nat)"
  by arith

lemma hex_val_hex_char: "d < 16 \<Longrightarrow> hex_val (hex_char d) = Some d"
  using hex_cases [of d] by (auto simp: hex_char_def hex_val_def)

lemma hex_char_not_quote: "d < 16 \<Longrightarrow> hex_char d \<noteq> dquote"
  using hex_cases [of d] by (auto simp: hex_char_def dquote_def)

lemma of_char_less_256: "(of_char c :: nat) < 256"
  by (metis of_char_mod_256 mod_less_divisor zero_less_numeral)

lemma scan_unicode_escape:
  "scan_string (bslash # CHR ''u'' # CHR ''0'' # CHR ''0'' #
                 hex_char (of_char c div 16) # hex_char (of_char c mod 16) # xs) =
   map_option (\<lambda>(str, r). (c # str, r)) (scan_string xs)"
proof -
  let ?n = "of_char c :: nat"
  have a: "?n div 16 < 16" using of_char_less_256 [of c] by presburger
  have b: "?n mod 16 < 16" by simp
  have h: "hex4 [CHR ''0'', CHR ''0'', hex_char (?n div 16), hex_char (?n mod 16)] = Some ?n"
    using hex_val_hex_char [OF a] hex_val_hex_char [OF b] by (simp add: hex_val_def)
  show ?thesis
    using h of_char_less_256 [of c]
    by (simp add: bslash_def dquote_def)
qed

lemma scan_simple_escape:
  assumes "unescape e = Some c" and "e \<noteq> CHR ''u''"
  shows "scan_string (bslash # e # xs) = map_option (\<lambda>(str, r). (c # str, r)) (scan_string xs)"
  using assms by (simp add: bslash_def dquote_def)

lemma scan_plain:
  assumes "c \<noteq> dquote" and "c \<noteq> bslash" and "\<not> (of_char c :: nat) < 32"
  shows "scan_string (c # xs) = map_option (\<lambda>(str, r). (c # str, r)) (scan_string xs)"
  using assms by simp

lemma scan_escape_char:
  "scan_string (escape_char c @ xs) = map_option (\<lambda>(str, r). (c # str, r)) (scan_string xs)"
proof -
  consider "c = dquote" | "c = bslash" | "c = CHR 0x0A" | "c = CHR 0x0D" | "c = CHR 0x09"
    | "c = CHR 0x08" | "c = CHR 0x0C"
    | "c \<noteq> dquote" "c \<noteq> bslash" "c \<noteq> CHR 0x0A" "c \<noteq> CHR 0x0D" "c \<noteq> CHR 0x09"
      "c \<noteq> CHR 0x08" "c \<noteq> CHR 0x0C" "(of_char c :: nat) < 32 \<or> 126 < (of_char c :: nat)"
    | "c \<noteq> dquote" "c \<noteq> bslash" "\<not> ((of_char c :: nat) < 32 \<or> 126 < (of_char c :: nat))"
      "c \<noteq> CHR 0x0A" "c \<noteq> CHR 0x0D" "c \<noteq> CHR 0x09" "c \<noteq> CHR 0x08" "c \<noteq> CHR 0x0C"
    by blast
  then show ?thesis
  proof cases
    case 1
    have "escape_char c = [bslash, dquote]" using 1 by (simp add: escape_char_def)
    moreover have "unescape dquote = Some c" using 1 by (simp add: unescape_def)
    moreover have "dquote \<noteq> CHR ''u''" by (simp add: dquote_def)
    ultimately show ?thesis by (simp add: scan_simple_escape del: scan_string.simps)
  next
    case 2
    have "escape_char c = [bslash, bslash]" using 2 by (simp add: escape_char_def bslash_def dquote_def)
    moreover have "unescape bslash = Some c" using 2 by (simp add: unescape_def bslash_def dquote_def)
    moreover have "bslash \<noteq> CHR ''u''" by (simp add: bslash_def)
    ultimately show ?thesis by (simp add: scan_simple_escape del: scan_string.simps)
  next
    case 3
    have "escape_char c = [bslash, CHR ''n'']" using 3 by (simp add: escape_char_def bslash_def dquote_def)
    moreover have "unescape CHR ''n'' = Some c" using 3 by (simp add: unescape_def bslash_def dquote_def)
    ultimately show ?thesis by (simp add: scan_simple_escape del: scan_string.simps)
  next
    case 4
    have "escape_char c = [bslash, CHR ''r'']" using 4 by (simp add: escape_char_def bslash_def dquote_def)
    moreover have "unescape CHR ''r'' = Some c" using 4 by (simp add: unescape_def bslash_def dquote_def)
    ultimately show ?thesis by (simp add: scan_simple_escape del: scan_string.simps)
  next
    case 5
    have "escape_char c = [bslash, CHR ''t'']" using 5 by (simp add: escape_char_def bslash_def dquote_def)
    moreover have "unescape CHR ''t'' = Some c" using 5 by (simp add: unescape_def bslash_def dquote_def)
    ultimately show ?thesis by (simp add: scan_simple_escape del: scan_string.simps)
  next
    case 6
    have "escape_char c = [bslash, CHR ''b'']" using 6 by (simp add: escape_char_def bslash_def dquote_def)
    moreover have "unescape CHR ''b'' = Some c" using 6 by (simp add: unescape_def bslash_def dquote_def)
    ultimately show ?thesis by (simp add: scan_simple_escape del: scan_string.simps)
  next
    case 7
    have "escape_char c = [bslash, CHR ''f'']" using 7 by (simp add: escape_char_def bslash_def dquote_def)
    moreover have "unescape CHR ''f'' = Some c" using 7 by (simp add: unescape_def bslash_def dquote_def)
    ultimately show ?thesis by (simp add: scan_simple_escape del: scan_string.simps)
  next
    case 8
    then have "escape_char c = [bslash, CHR ''u'', CHR ''0'', CHR ''0'',
            hex_char (of_char c div 16), hex_char (of_char c mod 16)]"
      by (simp add: escape_char_def)
    then show ?thesis by (simp add: scan_unicode_escape del: scan_string.simps)
  next
    case 9
    then have "escape_char c = [c]" by (simp add: escape_char_def)
    moreover have "\<not> (of_char c :: nat) < 32" using 9 by simp
    ultimately show ?thesis using 9(1,2) by (simp add: scan_plain del: scan_string.simps)
  qed
qed

lemma scan_string_escaped:
  "scan_string (concat (map escape_char s) @ dquote # rest) = Some (s, rest)"
proof (induction s)
  case Nil
  then show ?case by simp
next
  case (Cons c s)
  have "scan_string (concat (map escape_char (c # s)) @ dquote # rest) =
        scan_string (escape_char c @ (concat (map escape_char s) @ dquote # rest))"
    by simp
  also have "\<dots> = map_option (\<lambda>(str, r). (c # str, r))
                     (scan_string (concat (map escape_char s) @ dquote # rest))"
    by (rule scan_escape_char)
  finally show ?case using Cons by simp
qed

lemma scan_encode_string:
  "\<exists>body. encode_string s @ rest = dquote # body \<and> scan_string body = Some (s, rest)"
  by (simp add: encode_string_def scan_string_escaped)

subsection \<open>Tokens and white space\<close>















subsection \<open>Values\<close>















section \<open>Consumption\<close>



section \<open>Delivery\<close>




section \<open>Ordering\<close>



section \<open>Roles\<close>

text \<open>
  C4 says that a JoinRoom of a device already registered leaves its role unchanged.
  \<^verbatim>\<open>join_room\<close> replaces the row and always writes the role \<^verbatim>\<open>'peer'\<close>: the host
  that CreateRoom registered with the role HOST is a PEER after it joins its own
  room.
\<close>

theorem host_rejoining_becomes_peer:
  "create_room init_db 0 42517 [''device_id'' \<mapsto> JString ''H''] =
     Inr (\<lparr>created_room_id = ''042517'', created_token = ''host-H-042517''\<rparr>,
          \<lparr>rooms = [\<lparr>room_id = ''042517'', host_id = ''H'', room_created_at = 0,
                      room_status = Open\<rparr>],
           participants = [\<lparr>device_id = ''H'', part_room_id = ''042517'', part_role = Host,
                             last_seen = 0\<rparr>],
           signals = [], signals_seq = 0\<rparr>) \<and>
   join_room
     \<lparr>rooms = [\<lparr>room_id = ''042517'', host_id = ''H'', room_created_at = 0,
                 room_status = Open\<rparr>],
      participants = [\<lparr>device_id = ''H'', part_room_id = ''042517'', part_role = Host,
                        last_seen = 0\<rparr>],
      signals = [], signals_seq = 0\<rparr>
     7 ''042517'' [''device_id'' \<mapsto> JString ''H''] =
     Inr (\<lparr>joined_token = ''peer-H-042517'', joined_host_id = ''H''\<rparr>,
          \<lparr>rooms = [\<lparr>room_id = ''042517'', host_id = ''H'', room_created_at = 0,
                      room_status = Open\<rparr>],
           participants = [\<lparr>device_id = ''H'', part_room_id = ''042517'', part_role = Peer,
                             last_seen = 7\<rparr>],
           signals = [], signals_seq = 0\<rparr>)"
  by (simp add: create_room_def join_room_def dict_get_def fmt06_def str_nat.simps
      digit_char_def init_db_def Let_def)

section \<open>Send and the state of the room\<close>

text \<open>
  C5, as the code has it. \<^verbatim>\<open>send_signal\<close> never reads the table of rooms: whatever
  the rooms are, a Send whose \<^verbatim>\<open>from\<close>, \<^verbatim>\<open>to\<close> and \<^verbatim>\<open>type\<close> the store can bind as
  text and whose payload is not null succeeds, leaves the rooms as they are and
  appends one Signal row (after the housekeeping, when the uuid draw triggers it),
  and it does the same on a store with any other table of rooms.
\<close>

theorem send_ignores_the_room:
  assumes "sqlite_text (dict_get data ''from'') \<noteq> None"
    and "sqlite_text (dict_get data ''to'') \<noteq> None"
    and "sqlite_text (dict_get data ''type'') \<noteq> None"
    and "dict_get data ''payload'' \<noteq> JNull"
  shows "\<exists>s'. send_signal J s now uuid rid data = Inr ((), s') \<and>
           rooms s' = rooms s \<and>
           signals s' =
             (if uuid mod 10 = 0
              then filter (\<lambda>r. \<not> sig_created_at r < now - 600) (signals s)
              else signals s) @ [stored_signal J s now rid data] \<and>
           send_signal J (s\<lparr>rooms := rs\<rparr>) now uuid rid data = Inr ((), s'\<lparr>rooms := rs\<rparr>)"
proof -
  have a: "send_signal J s now uuid rid data =
      Inr ((), if uuid mod 10 = 0 then clean_stale_data (insert_signal J s now rid data) now
               else insert_signal J s now rid data)" for s
    using assms by (rule send_signal_accepted)
  have keep: "\<not> sig_created_at (stored_signal J s now rid data) < now - 600"
    by (simp add: stored_signal_def)
  have st: "stored_signal J (s\<lparr>rooms := rs\<rparr>) now rid data = stored_signal J s now rid data"
    by (simp add: stored_signal_def)
  show ?thesis
    unfolding a
    using keep st
    by (simp add: clean_stale_data_def insert_signal_def)
qed

theorem send_ignores_the_room_witness:
  "sqlite_text (dict_get (signal_body ''H'' ''P'' ''offer'' (JString ''a'')) ''from'') \<noteq> None \<and>
   sqlite_text (dict_get (signal_body ''H'' ''P'' ''offer'' (JString ''a'')) ''to'') \<noteq> None \<and>
   sqlite_text (dict_get (signal_body ''H'' ''P'' ''offer'' (JString ''a'')) ''type'') \<noteq> None \<and>
   dict_get (signal_body ''H'' ''P'' ''offer'' (JString ''a'')) ''payload'' \<noteq> JNull \<and>
   (\<exists>s'. send_signal py_json scenario_store 5 20 ''777777''
            (signal_body ''H'' ''P'' ''offer'' (JString ''a'')) = Inr ((), s') \<and>
         rooms s' = rooms scenario_store \<and>
         signals s' =
           (if (20::nat) mod 10 = 0
            then filter (\<lambda>r. \<not> sig_created_at r < 5 - 600) (signals scenario_store)
            else signals scenario_store) @
           [stored_signal py_json scenario_store 5 ''777777''
              (signal_body ''H'' ''P'' ''offer'' (JString ''a''))])"
proof -
  have h1: "sqlite_text (dict_get (signal_body ''H'' ''P'' ''offer'' (JString ''a'')) ''from'') \<noteq> None"
    by (simp add: signal_body_def dict_get_def)
  have h2: "sqlite_text (dict_get (signal_body ''H'' ''P'' ''offer'' (JString ''a'')) ''to'') \<noteq> None"
    by (simp add: signal_body_def dict_get_def)
  have h3: "sqlite_text (dict_get (signal_body ''H'' ''P'' ''offer'' (JString ''a'')) ''type'') \<noteq> None"
    by (simp add: signal_body_def dict_get_def)
  have h4: "dict_get (signal_body ''H'' ''P'' ''offer'' (JString ''a'')) ''payload'' \<noteq> JNull"
    by (simp add: signal_body_def dict_get_def)
  from send_ignores_the_room [OF h1 h2 h3 h4, of py_json scenario_store 5 20 "''777777''"]
    h1 h2 h3 h4
  show ?thesis by blast
qed

text \<open>
  C5 as stated fails: a Send into a room that does not exist and a Send into a room
  that is CLOSED both succeed and store their signal.
\<close>

theorem send_into_closed_or_missing_room:
  "send_signal py_json init_db 0 1 ''999999'' (signal_body ''H'' ''P'' ''offer'' (JString ''a'')) =
     Inr ((), \<lparr>rooms = [], participants = [],
               signals = [\<lparr>sig_id = 1, sig_room_id = ''999999'', from_device = ''H'',
                            to_device = ''P'', sig_type = ''offer'',
                            sig_payload = encode_json (JString ''a''), sig_created_at = 0\<rparr>],
               signals_seq = 1\<rparr>) \<and>
   send_signal py_json
     \<lparr>rooms = [\<lparr>room_id = ''042517'', host_id = ''H'', room_created_at = 0,
                 room_status = Closed\<rparr>],
      participants = [], signals = [], signals_seq = 0\<rparr>
     9 1 ''042517'' (signal_body ''H'' ''P'' ''offer'' (JString ''a'')) =
     Inr ((), \<lparr>rooms = [\<lparr>room_id = ''042517'', host_id = ''H'', room_created_at = 0,
                           room_status = Closed\<rparr>],
               participants = [],
               signals = [\<lparr>sig_id = 1, sig_room_id = ''042517'', from_device = ''H'',
                            to_device = ''P'', sig_type = ''offer'',
                            sig_payload = encode_json (JString ''a''), sig_created_at = 9\<rparr>],
               signals_seq = 1\<rparr>)"
  by code_simp

section \<open>Closing a room\<close>

lemma close_rooms_idem:
  "map (\<lambda>r. if room_id r = rid then r\<lparr>room_status := Closed\<rparr> else r)
     (map (\<lambda>r. if room_id r = rid then r\<lparr>room_status := Closed\<rparr> else r) rs) =
   map (\<lambda>r. if room_id r = rid then r\<lparr>room_status := Closed\<rparr> else r) rs"
  by (induction rs) auto

lemma close_rooms_other:
  "\<forall>r \<in> set rs. room_id r \<noteq> rid \<Longrightarrow>
   map (\<lambda>r. if room_id r = rid then r\<lparr>room_status := Closed\<rparr> else r) rs = rs"
  by (induction rs) auto

lemma close_rooms_closed:
  assumes "r \<in> set (map (\<lambda>r. if room_id r = rid then r\<lparr>room_status := Closed\<rparr> else r) rs)"
    and "room_id r = rid"
  shows "room_status r = Closed"
proof -
  from assms(1) obtain x where
    r: "r = (if room_id x = rid then x\<lparr>room_status := Closed\<rparr> else x)"
    unfolding set_map by (rule imageE)
  show ?thesis
  proof (cases "room_id x = rid")
    case True
    then show ?thesis using r by simp
  next
    case False
    then have "r = x" using r by simp
    with assms(2) False show ?thesis by simp
  qed
qed

lemma filter_all: "\<forall>x \<in> set xs. P x \<Longrightarrow> filter P xs = xs"
  by (induction xs) auto

lemma close_room_eq: "close_room s rid = Inr ((), closed_store s rid)"
  by (simp add: close_room_def closed_store_def)

lemma closed_store_idem: "closed_store (closed_store s rid) rid = closed_store s rid"
  unfolding closed_store_def by (simp add: close_rooms_idem del: map_map)

lemma closed_store_fetch:
  assumes "d \<noteq> []"
  shows "get_signals J (closed_store s rid) rid (Some d) = Inr ([], closed_store s rid)"
proof -
  have "filter (\<lambda>r. sig_room_id r = rid \<and> to_device r = d)
          (filter (\<lambda>r. sig_room_id r \<noteq> rid) (signals s)) = []"
    by (auto simp: filter_empty_conv)
  then have e: "select_signals (closed_store s rid) rid d = []"
    by (simp add: select_signals_def closed_store_def)
  show ?thesis using assms e by (simp add: get_signals_Inr_iff after_fetch_def)
qed

lemma closed_store_list: "list_participants (closed_store s rid) now rid = []"
proof -
  have "filter (\<lambda>p. part_room_id p = rid \<and> last_seen p > now - 30)
          (filter (\<lambda>p. part_room_id p \<noteq> rid) (participants s)) = []"
    by (auto simp: filter_empty_conv)
  then show ?thesis by (simp add: list_participants_def closed_store_def)
qed

text \<open>
  C6, as the code has it. CloseRoom always succeeds. After it every room with that id
  is CLOSED and no room is added or removed, the Participant and Signal rows of that
  room are deleted and all other rows are kept, ListPresent of the room is empty, a
  Fetch for any device of the room returns the empty list, and a second CloseRoom
  changes nothing. On an id that no room has, the rooms are unchanged; the rows that
  carry the id are deleted all the same, so the store is unchanged exactly when no
  row carries the id.
\<close>

theorem close_room_cascades:
  "\<exists>s'. close_room s rid = Inr ((), s') \<and>
     (\<forall>r \<in> set (rooms s'). room_id r = rid \<longrightarrow> room_status r = Closed) \<and>
     map room_id (rooms s') = map room_id (rooms s) \<and>
     participants s' = filter (\<lambda>p. part_room_id p \<noteq> rid) (participants s) \<and>
     signals s' = filter (\<lambda>r. sig_room_id r \<noteq> rid) (signals s) \<and>
     list_participants s' now rid = [] \<and>
     (d \<noteq> [] \<longrightarrow> get_signals J s' rid (Some d) = Inr ([], s')) \<and>
     close_room s' rid = Inr ((), s') \<and>
     ((\<forall>r \<in> set (rooms s). room_id r \<noteq> rid) \<longrightarrow> rooms s' = rooms s) \<and>
     ((\<forall>r \<in> set (rooms s). room_id r \<noteq> rid) \<and>
      (\<forall>p \<in> set (participants s). part_room_id p \<noteq> rid) \<and>
      (\<forall>r \<in> set (signals s). sig_room_id r \<noteq> rid) \<longrightarrow> s' = s)"
proof -
  let ?s = "closed_store s rid"
  have 1: "close_room s rid = Inr ((), ?s)" by (rule close_room_eq)
  have 2: "\<forall>r \<in> set (rooms ?s). room_id r = rid \<longrightarrow> room_status r = Closed"
    using close_rooms_closed [of _ rid "rooms s"] by (simp add: closed_store_def del: set_map)
  have 3: "map room_id (rooms ?s) = map room_id (rooms s)"
    by (simp add: closed_store_def room_ids_close del: map_map)
  have 4: "participants ?s = filter (\<lambda>p. part_room_id p \<noteq> rid) (participants s)"
    by (simp add: closed_store_def)
  have 5: "signals ?s = filter (\<lambda>r. sig_room_id r \<noteq> rid) (signals s)"
    by (simp add: closed_store_def)
  have 6: "list_participants ?s now rid = []" by (rule closed_store_list)
  have 7: "d \<noteq> [] \<longrightarrow> get_signals J ?s rid (Some d) = Inr ([], ?s)"
    by (simp add: closed_store_fetch)
  have 8: "close_room ?s rid = Inr ((), ?s)"
    by (simp add: close_room_eq closed_store_idem)
  have 9: "(\<forall>r \<in> set (rooms s). room_id r \<noteq> rid) \<longrightarrow> rooms ?s = rooms s"
    by (simp add: closed_store_def close_rooms_other)
  have 10: "(\<forall>r \<in> set (rooms s). room_id r \<noteq> rid) \<and>
      (\<forall>p \<in> set (participants s). part_room_id p \<noteq> rid) \<and>
      (\<forall>r \<in> set (signals s). sig_room_id r \<noteq> rid) \<longrightarrow> ?s = s"
    by (simp add: closed_store_def close_rooms_other filter_all [of _ "\<lambda>p. part_room_id p \<noteq> rid"]
        filter_all [of _ "\<lambda>r. sig_room_id r \<noteq> rid"])
  show ?thesis
    by (rule exI [of _ "closed_store s rid"]) (intro conjI 1 2 3 4 5 6 7 8 9 10)
qed

theorem close_room_cascades_witness:
  "''P'' \<noteq> [] \<and>
   list_all (\<lambda>r. room_id r \<noteq> ''999999'') (rooms scenario_room_store) \<and>
   list_all (\<lambda>p. part_room_id p \<noteq> ''999999'') (participants scenario_room_store) \<and>
   list_all (\<lambda>r. sig_room_id r \<noteq> ''999999'') (signals scenario_room_store) \<and>
   close_room scenario_room_store ''999999'' = Inr ((), scenario_room_store) \<and>
   (\<exists>s'. close_room scenario_room_store ''042517'' = Inr ((), s') \<and>
         get_signals py_json s' ''042517'' (Some ''P'') = Inr ([], s') \<and>
         list_participants s' 4 ''042517'' = [] \<and>
         close_room s' ''042517'' = Inr ((), s'))"
proof -
  have h1: "''P'' \<noteq> []" by simp
  have h2: "list_all (\<lambda>r. room_id r \<noteq> ''999999'') (rooms scenario_room_store)"
    by (simp add: scenario_room_store_def)
  have h3: "list_all (\<lambda>p. part_room_id p \<noteq> ''999999'') (participants scenario_room_store)"
    by (simp add: scenario_room_store_def)
  have h4: "list_all (\<lambda>r. sig_room_id r \<noteq> ''999999'') (signals scenario_room_store)"
    by (simp add: scenario_room_store_def)
  from close_room_cascades [of scenario_room_store "''999999''" 4 "''P''" py_json]
    h2 [unfolded list_all_iff] h3 [unfolded list_all_iff] h4 [unfolded list_all_iff]
  have a: "close_room scenario_room_store ''999999'' = Inr ((), scenario_room_store)"
    by auto
  from close_room_cascades [of scenario_room_store "''042517''" 4 "''P''" py_json] h1
  have b: "\<exists>s'. close_room scenario_room_store ''042517'' = Inr ((), s') \<and>
         get_signals py_json s' ''042517'' (Some ''P'') = Inr ([], s') \<and>
         list_participants s' 4 ''042517'' = [] \<and>
         close_room s' ''042517'' = Inr ((), s')"
    by blast
  from h1 h2 h3 h4 a b show ?thesis by blast
qed

text \<open>
  C6 as stated fails in its last part: \<^verbatim>\<open>send_signal\<close> stores a signal for a room
  that does not exist, and closing that room deletes the signal, which is not a
  no-op.
\<close>

theorem close_missing_room_deletes_signals:
  "send_signal py_json init_db 0 1 ''999999'' (signal_body ''H'' ''P'' ''offer'' (JString ''a'')) =
     Inr ((), \<lparr>rooms = [], participants = [],
               signals = [\<lparr>sig_id = 1, sig_room_id = ''999999'', from_device = ''H'',
                            to_device = ''P'', sig_type = ''offer'',
                            sig_payload = encode_json (JString ''a''), sig_created_at = 0\<rparr>],
               signals_seq = 1\<rparr>) \<and>
   close_room
     \<lparr>rooms = [], participants = [],
      signals = [\<lparr>sig_id = 1, sig_room_id = ''999999'', from_device = ''H'',
                   to_device = ''P'', sig_type = ''offer'',
                   sig_payload = encode_json (JString ''a''), sig_created_at = 0\<rparr>],
      signals_seq = 1\<rparr>
     ''999999'' =
     Inr ((), \<lparr>rooms = [], participants = [], signals = [], signals_seq = 1\<rparr>)"
  by code_simp

section \<open>Heartbeat\<close>

lemma heartbeat_map_id:
  "\<forall>p \<in> set ps. \<not> (part_room_id p = rid \<and> device_id p = d) \<Longrightarrow>
   map (\<lambda>p. if part_room_id p = rid \<and> device_id p = d then p\<lparr>last_seen := now\<rparr> else p) ps = ps"
  by (induction ps) auto

text \<open>
  C7, as the code has it. For a device id that is truthy and that the store can bind,
  a Heartbeat for a pair of room and device that has no Participant row reports
  success and leaves the store unchanged: the update matches no row and its row
  count is never read.
\<close>

theorem heartbeat_unknown_pair_succeeds:
  assumes "truthy (dict_get data ''device_id'')"
    and "sqlite_text (dict_get data ''device_id'') = Some d"
    and "\<forall>p \<in> set (participants s). \<not> (part_room_id p = rid \<and> device_id p = d)"
  shows "heartbeat s now rid data = Inr ((), s)"
  using assms by (simp add: heartbeat_def heartbeat_map_id)

theorem heartbeat_unknown_pair_succeeds_witness:
  "truthy (dict_get [''device_id'' \<mapsto> JString ''X''] ''device_id'') \<and>
   sqlite_text (dict_get [''device_id'' \<mapsto> JString ''X''] ''device_id'') = Some ''X'' \<and>
   list_all (\<lambda>p. \<not> (part_room_id p = ''042517'' \<and> device_id p = ''X''))
     (participants
        \<lparr>rooms = [\<lparr>room_id = ''042517'', host_id = ''H'', room_created_at = 0,
                    room_status = Open\<rparr>],
         participants = [\<lparr>device_id = ''H'', part_room_id = ''042517'', part_role = Host,
                           last_seen = 0\<rparr>],
         signals = [], signals_seq = 0\<rparr>) \<and>
   heartbeat
     \<lparr>rooms = [\<lparr>room_id = ''042517'', host_id = ''H'', room_created_at = 0,
                 room_status = Open\<rparr>],
      participants = [\<lparr>device_id = ''H'', part_room_id = ''042517'', part_role = Host,
                        last_seen = 0\<rparr>],
      signals = [], signals_seq = 0\<rparr>
     9 ''042517'' [''device_id'' \<mapsto> JString ''X''] =
     Inr ((),
       \<lparr>rooms = [\<lparr>room_id = ''042517'', host_id = ''H'', room_created_at = 0,
                   room_status = Open\<rparr>],
        participants = [\<lparr>device_id = ''H'', part_room_id = ''042517'', part_role = Host,
                          last_seen = 0\<rparr>],
        signals = [], signals_seq = 0\<rparr>)"
proof -
  have h1: "truthy (dict_get [''device_id'' \<mapsto> JString ''X''] ''device_id'')"
    by (simp add: dict_get_def)
  have h2: "sqlite_text (dict_get [''device_id'' \<mapsto> JString ''X''] ''device_id'') = Some ''X''"
    by (simp add: dict_get_def)
  have h3: "list_all (\<lambda>p. \<not> (part_room_id p = ''042517'' \<and> device_id p = ''X''))
     (participants
        \<lparr>rooms = [\<lparr>room_id = ''042517'', host_id = ''H'', room_created_at = 0,
                    room_status = Open\<rparr>],
         participants = [\<lparr>device_id = ''H'', part_room_id = ''042517'', part_role = Host,
                           last_seen = 0\<rparr>],
         signals = [], signals_seq = 0\<rparr>)"
    by simp
  from heartbeat_unknown_pair_succeeds [OF h1 h2 h3 [unfolded list_all_iff], of 9] h1 h2 h3
  show ?thesis by blast
qed

text \<open>
  C7 as stated fails: on the empty store, where nothing was ever registered,
  Heartbeat answers alive.
\<close>

theorem heartbeat_never_registered_reports_alive:
  "heartbeat init_db 0 ''042517'' [''device_id'' \<mapsto> JString ''X''] = Inr ((), init_db)"
  by code_simp

section \<open>Creating a room\<close>

text \<open>
  C8, as the code has it. CreateRoom draws one identifier and does not retry. For a
  device id that is truthy and that the store can bind: when the identifier drawn is
  that of a room, the request fails at once with a 500 that carries the uniqueness
  failure of the store, and nothing is stored; when it is free (and no participant
  row holds the pair), the room is created OPEN and the host registered as HOST.
\<close>

theorem create_room_does_not_retry:
  assumes "truthy (dict_get data ''device_id'')"
    and "sqlite_text (dict_get data ''device_id'') = Some h"
  shows "((\<exists>r \<in> set (rooms s). room_id r = fmt06 rnd) \<longrightarrow>
            create_room s now rnd data = Inl (ServerError (UniqueViolation ''rooms.room_id''))) \<and>
         (\<not> (\<exists>r \<in> set (rooms s). room_id r = fmt06 rnd) \<and>
          \<not> (\<exists>p \<in> set (participants s). device_id p = h \<and> part_room_id p = fmt06 rnd) \<longrightarrow>
            create_room s now rnd data =
              Inr (\<lparr>created_room_id = fmt06 rnd,
                    created_token = ''host-'' @ py_str (dict_get data ''device_id'') @ ''-'' @ fmt06 rnd\<rparr>,
                   s\<lparr>rooms := rooms s @
                        [\<lparr>room_id = fmt06 rnd, host_id = h, room_created_at = now,
                          room_status = Open\<rparr>],
                     participants := participants s @
                        [\<lparr>device_id = h, part_room_id = fmt06 rnd, part_role = Host,
                          last_seen = now\<rparr>]\<rparr>))"
  using assms by (simp add: create_room_def Let_def)

theorem create_room_does_not_retry_witness:
  "truthy (dict_get [''device_id'' \<mapsto> JString ''B''] ''device_id'') \<and>
   sqlite_text (dict_get [''device_id'' \<mapsto> JString ''B''] ''device_id'') = Some ''B'' \<and>
   list_ex (\<lambda>r. room_id r = fmt06 42517)
     (rooms (init_db\<lparr>rooms := [\<lparr>room_id = ''042517'', host_id = ''H'', room_created_at = 0,
                                  room_status = Closed\<rparr>]\<rparr>)) \<and>
   create_room
     (init_db\<lparr>rooms := [\<lparr>room_id = ''042517'', host_id = ''H'', room_created_at = 0,
                          room_status = Closed\<rparr>]\<rparr>)
     3 42517 [''device_id'' \<mapsto> JString ''B''] =
     Inl (ServerError (UniqueViolation ''rooms.room_id''))"
proof -
  have h1: "truthy (dict_get [''device_id'' \<mapsto> JString ''B''] ''device_id'')"
    by (simp add: dict_get_def)
  have h2: "sqlite_text (dict_get [''device_id'' \<mapsto> JString ''B''] ''device_id'') = Some ''B''"
    by (simp add: dict_get_def)
  have h3: "list_ex (\<lambda>r. room_id r = fmt06 42517)
     (rooms (init_db\<lparr>rooms := [\<lparr>room_id = ''042517'', host_id = ''H'', room_created_at = 0,
                                  room_status = Closed\<rparr>]\<rparr>))"
    by (simp add: fmt06_def str_nat.simps digit_char_def)
  from create_room_does_not_retry [OF h1 h2, of _ 42517 3] h3 [unfolded list_ex_iff] h1 h2 h3
  show ?thesis by blast
qed

text \<open>
  C8 as stated fails: with room 042517 taken, a CreateRoom whose draw is 42517
  returns the duplicate-key failure of the store and never draws again.
\<close>

theorem create_room_surfaces_duplicate_key:
  "create_room
     \<lparr>rooms = [\<lparr>room_id = ''042517'', host_id = ''H'', room_created_at = 0,
                 room_status = Open\<rparr>],
      participants = [\<lparr>device_id = ''H'', part_room_id = ''042517'', part_role = Host,
                        last_seen = 0\<rparr>],
      signals = [], signals_seq = 0\<rparr>
     3 42517 [''device_id'' \<mapsto> JString ''B''] =
     Inl (ServerError (UniqueViolation ''rooms.room_id''))"
  by (simp add: create_room_def dict_get_def fmt06_def str_nat.simps digit_char_def Let_def)

section \<open>Null fields of a Send\<close>

text \<open>
  C10. A Send whose body holds JSON null under \<^verbatim>\<open>from\<close>, \<^verbatim>\<open>to\<close>, \<^verbatim>\<open>type\<close> or
  \<^verbatim>\<open>payload\<close> is answered with the missing-field error 400, which carries no new
  store: no row is inserted. The answer is that of the same request with the key
  left out, so a null field cannot be told from an absent one.
\<close>

theorem send_null_field_is_missing:
  assumes "k \<in> {''from'', ''to'', ''type'', ''payload''}"
    and "data k = Some JNull"
  shows "send_signal J s now uuid rid data =
           Inl (BadRequest ''Missing fields (from, to, type, payload are required)'') \<and>
         send_signal J s now uuid rid (data(k := None)) = send_signal J s now uuid rid data"
proof -
  have a: "dict_get data k = JNull" using assms(2) by (simp add: dict_get_def)
  have b: "dict_get (data(k := None)) k = JNull" by (simp add: dict_get_def)
  have "send_signal J s now uuid rid data =
           Inl (BadRequest ''Missing fields (from, to, type, payload are required)'')"
    using assms(1) a by (auto simp: send_signal_def Let_def)
  moreover have "send_signal J s now uuid rid (data(k := None)) =
           Inl (BadRequest ''Missing fields (from, to, type, payload are required)'')"
    using assms(1) b by (auto simp: send_signal_def Let_def)
  ultimately show ?thesis by simp
qed

theorem send_null_field_is_missing_witness:
  "''payload'' \<in> {''from'', ''to'', ''type'', ''payload''} \<and>
   signal_body ''H'' ''P'' ''offer'' JNull ''payload'' = Some JNull \<and>
   send_signal py_json scenario_store 5 3 ''042517'' (signal_body ''H'' ''P'' ''offer'' JNull) =
     Inl (BadRequest ''Missing fields (from, to, type, payload are required)'') \<and>
   send_signal py_json scenario_store 5 3 ''042517''
     ((signal_body ''H'' ''P'' ''offer'' JNull)(''payload'' := None)) =
   send_signal py_json scenario_store 5 3 ''042517'' (signal_body ''H'' ''P'' ''offer'' JNull)"
proof -
  have h1: "''payload'' \<in> {''from'', ''to'', ''type'', ''payload''}" by simp
  have h2: "signal_body ''H'' ''P'' ''offer'' JNull ''payload'' = Some JNull"
    by (simp add: signal_body_def)
  from send_null_field_is_missing
      [where k = "''payload''" and data = "signal_body ''H'' ''P'' ''offer'' JNull"
         and J = py_json and s = scenario_store and now = 5 and uuid = 3 and rid = "''042517''",
       OF h1 h2] h1 h2
  show ?thesis by blast
qed

section \<open>Payloads\<close>






end
